theory Spec2Isabelle
  imports Main
begin

section \<open>Python values, exceptions and the interpreter\<close>

text \<open>
  The converter \<^verbatim>\<open>pickle_to_txt\<close> (\<^verbatim>\<open>src/src/get_results.py\<close>; \<^verbatim>\<open>src/src/picke_to_txt.py\<close>
  holds the same routine with other example paths) receives whatever object the pickle
  holds. The values below are the part of Python's object universe the routine can tell
  apart: \<^verbatim>\<open>None\<close>, integers, floats, strings, lists and dictionaries with string keys.
  A numpy array, as the detector writes it, behaves for every operation used here
  (iteration, unpacking, formatting of its elements) like the list of its rows.
  The type \<open>'f\<close> is the type of floating-point numbers; their text form is supplied by
  the interpreter (see \<open>runtime\<close>). A string is a list of characters, a dictionary an
  association list read from the left.
\<close>

datatype 'f pyval =
    PNone
  | PInt int
  | PFloat 'f
  | PStr string
  | PList "'f pyval list"
  | PDict "(string \<times> 'f pyval) list"

text \<open>
  Exceptions are values. Subscripting, iteration and unpacking raise \<^verbatim>\<open>KeyError\<close>,
  \<^verbatim>\<open>TypeError\<close> and \<^verbatim>\<open>ValueError\<close>. The surroundings (\<^verbatim>\<open>open\<close>, \<^verbatim>\<open>pickle.load\<close>,
  \<^verbatim>\<open>os.makedirs\<close>, \<^verbatim>\<open>write\<close>, \<^verbatim>\<open>close\<close>) raise \<open>EnvError\<close>, which stands for the
  instances of \<^verbatim>\<open>Exception\<close> they are documented to raise (\<^verbatim>\<open>OSError\<close> and its
  subclasses, \<^verbatim>\<open>UnpicklingError\<close>, \<^verbatim>\<open>EOFError\<close>, ...), or one of the two signals that
  are instances of \<^verbatim>\<open>BaseException\<close> and not of \<^verbatim>\<open>Exception\<close>: \<^verbatim>\<open>SystemExit\<close>, which
  unpickling raises when the pickle calls \<^verbatim>\<open>sys.exit\<close>, and \<^verbatim>\<open>KeyboardInterrupt\<close>.
\<close>

datatype type_error =
    NotSubscriptable    \<comment> \<open>\<^verbatim>\<open>v['k']\<close> on \<^verbatim>\<open>None\<close>, an int or a float\<close>
  | BadIndexType        \<comment> \<open>\<^verbatim>\<open>v['k']\<close> on a list or a string\<close>
  | NotIterable         \<comment> \<open>\<^verbatim>\<open>iter(v)\<close> on \<^verbatim>\<open>None\<close>, an int or a float\<close>
  | CannotUnpack        \<comment> \<open>unpacking \<^verbatim>\<open>None\<close>, an int or a float\<close>

datatype value_error =
    NotEnoughValues nat \<comment> \<open>fewer values than targets; the number found\<close>
  | TooManyValues

datatype exn =
    KeyError string
  | TypeError type_error
  | ValueError value_error
  | EnvError string     \<comment> \<open>an \<^verbatim>\<open>Exception\<close> of the file system or of the unpickler\<close>
  | SystemExit
  | KeyboardInterrupt

text \<open>\<^verbatim>\<open>isinstance(e, Exception)\<close>, the test of the clause \<^verbatim>\<open>except Exception\<close>.\<close>

fun is_Exception :: "exn \<Rightarrow> bool" where
  "is_Exception SystemExit = False"
| "is_Exception KeyboardInterrupt = False"
| "is_Exception e = True"

text \<open>
  What the interpreter supplies and the repository does not define: the text form of a
  float and of a container, the truth value of a float, and the message text \<^verbatim>\<open>str(e)\<close>
  of an exception.
\<close>

record 'f runtime =
  float_format :: "'f \<Rightarrow> string"
  float_nonzero :: "'f \<Rightarrow> bool"
  container_format :: "'f pyval \<Rightarrow> string"
  exc_str :: "exn \<Rightarrow> string"

subsection \<open>Decimal text of an integer\<close>

definition digit_char :: "nat \<Rightarrow> char" where
  "digit_char d = ''0123456789'' ! d"

fun show_nat :: "nat \<Rightarrow> string" where
  "show_nat n = (if n < 10 then [digit_char n] else show_nat (n div 10) @ [digit_char (n mod 10)])"

declare show_nat.simps [simp del]

definition show_int :: "int \<Rightarrow> string" where
  "show_int i = (if i < 0 then CHR ''-'' # show_nat (nat (- i)) else show_nat (nat i))"

subsection \<open>The operations of the language the routine uses\<close>

text \<open>\<^verbatim>\<open>format(v, '')\<close>, which an f-string applies to each \<^verbatim>\<open>{v}\<close>.\<close>

definition py_format :: "'f runtime \<Rightarrow> 'f pyval \<Rightarrow> string" where
  "py_format rt v =
     (case v of
        PNone \<Rightarrow> ''None''
      | PInt i \<Rightarrow> show_int i
      | PFloat f \<Rightarrow> float_format rt f
      | PStr s \<Rightarrow> s
      | PList xs \<Rightarrow> container_format rt v
      | PDict kvs \<Rightarrow> container_format rt v)"

text \<open>The truth value tested by \<^verbatim>\<open>if not data\<close>.\<close>

definition py_truth :: "'f runtime \<Rightarrow> 'f pyval \<Rightarrow> bool" where
  "py_truth rt v =
     (case v of
        PNone \<Rightarrow> False
      | PInt i \<Rightarrow> i \<noteq> 0
      | PFloat f \<Rightarrow> float_nonzero rt f
      | PStr s \<Rightarrow> s \<noteq> []
      | PList xs \<Rightarrow> xs \<noteq> []
      | PDict kvs \<Rightarrow> kvs \<noteq> [])"

text \<open>
  The items \<^verbatim>\<open>iter(v)\<close> yields: the elements of a list, the one-character strings of a
  string, the keys of a dictionary; the other values are not iterable.
\<close>

definition py_iter :: "'f pyval \<Rightarrow> exn + 'f pyval list" where
  "py_iter v =
     (case v of
        PList xs \<Rightarrow> Inr xs
      | PStr s \<Rightarrow> Inr (map (\<lambda>c. PStr [c]) s)
      | PDict kvs \<Rightarrow> Inr (map (\<lambda>kv. PStr (fst kv)) kvs)
      | _ \<Rightarrow> Inl (TypeError NotIterable))"

text \<open>\<^verbatim>\<open>v[k]\<close> for a string key \<open>k\<close>.\<close>

definition py_getitem :: "'f pyval \<Rightarrow> string \<Rightarrow> exn + 'f pyval" where
  "py_getitem v k =
     (case v of
        PDict kvs \<Rightarrow> (case map_of kvs k of None \<Rightarrow> Inl (KeyError k) | Some x \<Rightarrow> Inr x)
      | PList xs \<Rightarrow> Inl (TypeError BadIndexType)
      | PStr s \<Rightarrow> Inl (TypeError BadIndexType)
      | _ \<Rightarrow> Inl (TypeError NotSubscriptable))"

text \<open>
  The assignment \<^verbatim>\<open>x, y, z, length, width, height, rotation = box\<close>: the items of
  \<open>box\<close>, which must be seven.
\<close>

definition unpack7 :: "'f pyval \<Rightarrow> exn + 'f pyval list" where
  "unpack7 box =
     (case py_iter box of
        Inl e \<Rightarrow> Inl (TypeError CannotUnpack)
      | Inr vs \<Rightarrow>
          if length vs = 7 then Inr vs
          else if length vs < 7 then Inl (ValueError (NotEnoughValues (length vs)))
          else Inl (ValueError TooManyValues))"

text \<open>
  \<^verbatim>\<open>os.path.join(a, b)\<close> of \<^verbatim>\<open>posixpath\<close>: an absolute \<open>b\<close> replaces \<open>a\<close>; otherwise
  \<open>b\<close> is appended, after one separator unless \<open>a\<close> is empty or already ends in one.
\<close>

definition os_path_join :: "string \<Rightarrow> string \<Rightarrow> string" where
  "os_path_join a b =
     (if take 1 b = ''/'' then b
      else if a = [] \<or> last a = CHR ''/'' then a @ b
      else a @ ''/'' @ b)"

section \<open>The file system and the standard output\<close>

text \<open>
  The state the routine acts on: the lines printed so far (one entry per \<^verbatim>\<open>print\<close>), the
  directories that exist, and the text files. A file is named by the canonical path the
  file system resolves a path to (\<open>resolve\<close> below), so that two paths of one file, such
  as \<^verbatim>\<open>out/a.txt\<close> and \<^verbatim>\<open>out/./a.txt\<close>, are one entry. Standard output accepts every line.
\<close>

record world =
  stdout :: "string list"
  dirs :: "string set"
  files :: "string \<rightharpoonup> string"

text \<open>
  What the surroundings decide: the outcome of opening and unpickling the source file
  (lines 7 to 8), which file a path names, and whether \<^verbatim>\<open>os.makedirs\<close>,
  \<^verbatim>\<open>open(path, 'w')\<close>, a \<^verbatim>\<open>write\<close> or the \<^verbatim>\<open>close\<close> at the end of the \<^verbatim>\<open>with\<close> block
  raises. The file object buffers what is written: the text reaches the file when the
  buffer is flushed, at the latest by \<^verbatim>\<open>close\<close>. A \<^verbatim>\<open>write\<close> raises only when it
  flushes a full buffer and the flush fails; \<open>write_exc\<close> decides this from the path, the
  text buffered so far and the text to be written, and gives the exception and the text
  that stays buffered. A failing \<^verbatim>\<open>close\<close> is decided by \<open>close_exc\<close> from the path and
  the buffered text, which gives the exception and what the file holds afterwards. The
  source file is read, never written, by the model: its content does not change
  between runs.
\<close>

record 'f env =
  load_pickle :: "string \<Rightarrow> exn + 'f pyval"
  makedirs_exc :: "string \<Rightarrow> exn option"
  resolve :: "string \<Rightarrow> string"
  open_exc :: "string \<Rightarrow> exn option"
  write_exc :: "string \<Rightarrow> string \<Rightarrow> string \<Rightarrow> (exn \<times> string) option"
  close_exc :: "string \<Rightarrow> string \<Rightarrow> (exn \<times> string) option"

definition newline :: string where
  "newline = [CHR 0x0A]"

definition print :: "string \<Rightarrow> world \<Rightarrow> world" where
  "print s w = w\<lparr>stdout := stdout w @ [s]\<rparr>"

text \<open>\<^verbatim>\<open>os.makedirs(d, exist_ok=True)\<close>; parent directories are not tracked.\<close>

definition makedirs :: "'f env \<Rightarrow> string \<Rightarrow> world \<Rightarrow> world \<times> exn option" where
  "makedirs env d w =
     (case makedirs_exc env d of
        Some e \<Rightarrow> (w, Some e)
      | None \<Rightarrow> (w\<lparr>dirs := insert d (dirs w)\<rparr>, None))"

text \<open>
  \<^verbatim>\<open>open(p, 'w')\<close>: the file \<open>p\<close> names is created, or emptied when it exists; the
  buffer of the new file object is empty.
\<close>

definition open_w :: "'f env \<Rightarrow> string \<Rightarrow> world \<Rightarrow> world \<times> exn option" where
  "open_w env p w =
     (case open_exc env p of
        Some e \<Rightarrow> (w, Some e)
      | None \<Rightarrow> (w\<lparr>files := (files w)(resolve env p \<mapsto> [])\<rparr>, None))"

text \<open>
  \<^verbatim>\<open>txt_f.write(line)\<close> on the file object opened at \<open>p\<close> whose buffer holds \<open>buf\<close>: the
  new buffer and the exception raised, if any.
\<close>

definition file_write :: "'f env \<Rightarrow> string \<Rightarrow> string \<Rightarrow> string \<Rightarrow> string \<times> exn option" where
  "file_write env p buf line =
     (case write_exc env p buf line of
        Some (e, buf1) \<Rightarrow> (buf1, Some e)
      | None \<Rightarrow> (buf @ line, None))"

text \<open>
  The \<^verbatim>\<open>close\<close> the \<^verbatim>\<open>with\<close> statement calls when its block is left, by its end or by
  an exception: the buffer is flushed to the file.
\<close>

definition file_close :: "'f env \<Rightarrow> string \<Rightarrow> string \<Rightarrow> world \<Rightarrow> world \<times> exn option" where
  "file_close env p buf w =
     (case close_exc env p buf of
        Some (e, kept) \<Rightarrow> (w\<lparr>files := (files w)(resolve env p \<mapsto> kept)\<rparr>, Some e)
      | None \<Rightarrow> (w\<lparr>files := (files w)(resolve env p \<mapsto> buf)\<rparr>, None))"

section \<open>The converter\<close>

text \<open>Line 28: the f-string over the seven unpacked values and the score.\<close>

definition format_line :: "'f runtime \<Rightarrow> 'f pyval list \<Rightarrow> 'f pyval \<Rightarrow> string" where
  "format_line rt vs score =
     (let x = vs ! 0; y = vs ! 1; z = vs ! 2; length' = vs ! 3; width = vs ! 4;
          height = vs ! 5; rotation = vs ! 6
      in py_format rt x @ '' '' @ py_format rt y @ '' '' @ py_format rt z @ '' '' @
         py_format rt length' @ '' '' @ py_format rt width @ '' '' @ py_format rt height @ '' '' @
         py_format rt rotation @ '' '' @ py_format rt score @ newline)"

text \<open>
  Lines 26 to 30: the loop over the pairs \<^verbatim>\<open>zip\<close> yields, from index \<open>j\<close> on, with the
  buffer of the file object. The result is the state reached, the buffer, and the
  exception raised, if any.
\<close>

fun for_boxes ::
  "'f runtime \<Rightarrow> 'f env \<Rightarrow> string \<Rightarrow> 'f pyval \<Rightarrow> nat \<Rightarrow> ('f pyval \<times> 'f pyval) list \<Rightarrow> string
     \<Rightarrow> world \<Rightarrow> world \<times> string \<times> exn option" where
  "for_boxes rt env txt_file frame_id j [] buf w = (w, buf, None)"
| "for_boxes rt env txt_file frame_id j ((box, score) # rest) buf w =
     (case unpack7 box of
        Inl e \<Rightarrow> (w, buf, Some e)
      | Inr vs \<Rightarrow>
          (case file_write env txt_file buf (format_line rt vs score) of
             (buf1, Some e) \<Rightarrow> (w, buf1, Some e)
           | (buf1, None) \<Rightarrow>
               for_boxes rt env txt_file frame_id (Suc j) rest buf1
                 (print (''Written box '' @ show_nat j @ '' for frame '' @ py_format rt frame_id) w)))"

text \<open>
  Lines 26 to 30 as the block of the \<^verbatim>\<open>with\<close> statement: \<^verbatim>\<open>zip\<close> asks both arguments
  for their items when it is called, boxes first, and pairs them up to the shorter one.
\<close>

definition with_block ::
  "'f runtime \<Rightarrow> 'f env \<Rightarrow> string \<Rightarrow> 'f pyval \<Rightarrow> 'f pyval \<Rightarrow> 'f pyval \<Rightarrow> world
     \<Rightarrow> world \<times> string \<times> exn option" where
  "with_block rt env txt_file frame_id boxes_lidar scores w =
     (case py_iter boxes_lidar of
        Inl e \<Rightarrow> (w, [], Some e)
      | Inr bs \<Rightarrow>
     (case py_iter scores of
        Inl e \<Rightarrow> (w, [], Some e)
      | Inr ss \<Rightarrow> for_boxes rt env txt_file frame_id 0 (zip bs ss) [] w))"

text \<open>
  Lines 25 to 30, the \<^verbatim>\<open>with\<close> statement: the file is opened, the block runs, and
  however the block is left, the file is closed; an exception of \<^verbatim>\<open>close\<close> takes the
  place of the block's own.
\<close>

definition with_open ::
  "'f runtime \<Rightarrow> 'f env \<Rightarrow> string \<Rightarrow> 'f pyval \<Rightarrow> 'f pyval \<Rightarrow> 'f pyval \<Rightarrow> world
     \<Rightarrow> world \<times> exn option" where
  "with_open rt env txt_file frame_id boxes_lidar scores w =
     (case open_w env txt_file w of
        (w2, Some e) \<Rightarrow> (w2, Some e)
      | (w2, None) \<Rightarrow>
     (case with_block rt env txt_file frame_id boxes_lidar scores w2 of
        (w3, buf, raised) \<Rightarrow>
     (case file_close env txt_file buf w3 of
        (w4, Some e) \<Rightarrow> (w4, Some e)
      | (w4, None) \<Rightarrow> (w4, raised))))"

text \<open>
  Lines 18 to 32, the body of the loop over the samples. The three fields are read before
  the file is opened.
\<close>

definition process_sample ::
  "'f runtime \<Rightarrow> 'f env \<Rightarrow> string \<Rightarrow> 'f pyval \<Rightarrow> world \<Rightarrow> world \<times> exn option" where
  "process_sample rt env output_dir sample w =
     (case py_getitem sample ''frame_id'' of
        Inl e \<Rightarrow> (w, Some e)
      | Inr frame_id \<Rightarrow>
     (case py_getitem sample ''boxes_lidar'' of
        Inl e \<Rightarrow> (w, Some e)
      | Inr boxes_lidar \<Rightarrow>
     (case py_getitem sample ''score'' of
        Inl e \<Rightarrow> (w, Some e)
      | Inr scores \<Rightarrow>
     (let txt_file = os_path_join output_dir (py_format rt frame_id @ ''.txt'');
          w1 = print (''Writing to file: '' @ txt_file) w
      in case with_open rt env txt_file frame_id boxes_lidar scores w1 of
           (w4, Some e) \<Rightarrow> (w4, Some e)
         | (w4, None) \<Rightarrow>
             (print (''Completed writing for frame '' @ py_format rt frame_id) w4, None)))))"

text \<open>Line 17: the loop over the samples, left at the first exception.\<close>

fun for_samples ::
  "'f runtime \<Rightarrow> 'f env \<Rightarrow> string \<Rightarrow> 'f pyval list \<Rightarrow> world \<Rightarrow> world \<times> exn option" where
  "for_samples rt env output_dir [] w = (w, None)"
| "for_samples rt env output_dir (sample # rest) w =
     (case process_sample rt env output_dir sample w of
        (w1, Some e) \<Rightarrow> (w1, Some e)
      | (w1, None) \<Rightarrow> for_samples rt env output_dir rest w1)"

text \<open>
  Lines 6 to 32, the body of the \<^verbatim>\<open>try\<close>. It ends by falling off its end or by the bare
  \<^verbatim>\<open>return\<close> of line 15 (\<open>None\<close> in the second component), or by an exception.
\<close>

definition try_body ::
  "'f runtime \<Rightarrow> 'f env \<Rightarrow> string \<Rightarrow> string \<Rightarrow> world \<Rightarrow> world \<times> exn option" where
  "try_body rt env pickle_file output_dir w =
     (let w1 = print (''Loading pickle file: '' @ pickle_file) w in
      case load_pickle env pickle_file of
        Inl e \<Rightarrow> (w1, Some e)
      | Inr data \<Rightarrow>
     (let w2 = print (''Creating output directory: '' @ output_dir) w1 in
      case makedirs env output_dir w2 of
        (w3, Some e) \<Rightarrow> (w3, Some e)
      | (w3, None) \<Rightarrow>
          if \<not> py_truth rt data then (print ''No data found in pickle file.'' w3, None)
          else (case py_iter data of
                  Inl e \<Rightarrow> (w3, Some e)
                | Inr samples \<Rightarrow> for_samples rt env output_dir samples w3)))"

text \<open>
  Lines 4 to 35. The handler \<^verbatim>\<open>except Exception as e\<close> takes the instances of
  \<^verbatim>\<open>Exception\<close>: it prints the message and the function falls off its end, returning
  \<^verbatim>\<open>None\<close>. Any other exception leaves the function. The second component is what the
  caller receives: \<open>Inl\<close> an exception that propagates, \<open>Inr\<close> the value returned.
\<close>

definition pickle_to_txt ::
  "'f runtime \<Rightarrow> 'f env \<Rightarrow> string \<Rightarrow> string \<Rightarrow> world \<Rightarrow> world \<times> (exn + 'f pyval)" where
  "pickle_to_txt rt env pickle_file output_dir w =
     (case try_body rt env pickle_file output_dir w of
        (w1, None) \<Rightarrow> (w1, Inr PNone)
      | (w1, Some e) \<Rightarrow>
          if is_Exception e then (print (''An error occurred: '' @ exc_str rt e) w1, Inr PNone)
          else (w1, Inl e))"

section \<open>The data model of the specification\<close>

text \<open>
  A Box is seven values in fixed order; \<open>box_val\<close> is the sequence the pickle holds for
  it and \<open>box_line\<close> the text line the specification asks for: the eight text forms
  separated by single spaces, ended by a newline.
\<close>

datatype 'f box =
  Box "'f pyval" "'f pyval" "'f pyval" "'f pyval" "'f pyval" "'f pyval" "'f pyval"

fun box_val :: "'f box \<Rightarrow> 'f pyval" where
  "box_val (Box x y z l wd h r) = PList [x, y, z, l, wd, h, r]"

fun box_items :: "'f box \<Rightarrow> 'f pyval list" where
  "box_items (Box x y z l wd h r) = [x, y, z, l, wd, h, r]"

fun box_line :: "'f runtime \<Rightarrow> 'f box \<Rightarrow> 'f pyval \<Rightarrow> string" where
  "box_line rt (Box x y z l wd h r) s =
     py_format rt x @ '' '' @ py_format rt y @ '' '' @ py_format rt z @ '' '' @
     py_format rt l @ '' '' @ py_format rt wd @ '' '' @ py_format rt h @ '' '' @
     py_format rt r @ '' '' @ py_format rt s @ newline"

text \<open>
  A FrameResult, and what it means for a record of the pickle to hold one: the three
  fields are present with these values (other keys may be present too).
\<close>

record 'f frame_result =
  fr_id :: "'f pyval"
  fr_boxes :: "'f box list"
  fr_scores :: "'f pyval list"

definition holds_frame :: "'f pyval \<Rightarrow> 'f frame_result \<Rightarrow> bool" where
  "holds_frame sample fr \<longleftrightarrow>
     py_getitem sample ''frame_id'' = Inr (fr_id fr) \<and>
     py_getitem sample ''boxes_lidar'' = Inr (PList (map box_val (fr_boxes fr))) \<and>
     py_getitem sample ''score'' = Inr (PList (fr_scores fr))"

text \<open>
  The path of a frame's file, the file that path names, and the lines of a frame: box
  \<open>j\<close> with score \<open>j\<close>.
\<close>

definition txt_path :: "'f runtime \<Rightarrow> string \<Rightarrow> 'f frame_result \<Rightarrow> string" where
  "txt_path rt output_dir fr = os_path_join output_dir (py_format rt (fr_id fr) @ ''.txt'')"

definition frame_file :: "'f runtime \<Rightarrow> 'f env \<Rightarrow> string \<Rightarrow> 'f frame_result \<Rightarrow> string" where
  "frame_file rt env output_dir fr = resolve env (txt_path rt output_dir fr)"

definition frame_lines :: "'f runtime \<Rightarrow> 'f frame_result \<Rightarrow> string list" where
  "frame_lines rt fr = map2 (box_line rt) (fr_boxes fr) (fr_scores fr)"

definition frame_text :: "'f runtime \<Rightarrow> 'f frame_result \<Rightarrow> string" where
  "frame_text rt fr = concat (frame_lines rt fr)"

text \<open>The files after each frame's text has been stored in its file, in order.\<close>

definition write_all ::
  "'f runtime \<Rightarrow> 'f env \<Rightarrow> string \<Rightarrow> 'f frame_result list \<Rightarrow> (string \<rightharpoonup> string)
     \<Rightarrow> (string \<rightharpoonup> string)" where
  "write_all rt env output_dir frs m =
     foldl (\<lambda>m fr. m(frame_file rt env output_dir fr \<mapsto> frame_text rt fr)) m frs"


text \<open>The number of lines of a text: the number of its newline characters.\<close>

definition count_lines :: "string \<Rightarrow> nat" where
  "count_lines s = length (filter (\<lambda>c. c = CHR 0x0A) s)"

text \<open>Numbers, and the frames all of whose box fields and scores are numbers.\<close>

fun is_number :: "'f pyval \<Rightarrow> bool" where
  "is_number (PInt i) = True"
| "is_number (PFloat f) = True"
| "is_number v = False"

definition numeric_frame :: "'f frame_result \<Rightarrow> bool" where
  "numeric_frame fr \<longleftrightarrow>
     list_all (\<lambda>b. list_all is_number (box_items b)) (fr_boxes fr) \<and>
     list_all is_number (fr_scores fr)"

text \<open>The state before the loop over the samples, once the directory has been made.\<close>

definition loop_start :: "string \<Rightarrow> string \<Rightarrow> world \<Rightarrow> world" where
  "loop_start pickle_file output_dir w =
     (print (''Creating output directory: '' @ output_dir)
        (print (''Loading pickle file: '' @ pickle_file) w))
     \<lparr>dirs := insert output_dir (dirs w)\<rparr>"


text \<open>
  The first of the three fields a dictionary lacks, in the order the routine reads them.
\<close>

definition missing_field :: "(string \<times> 'f pyval) list \<Rightarrow> string option" where
  "missing_field kvs =
     (if map_of kvs ''frame_id'' = None then Some ''frame_id''
      else if map_of kvs ''boxes_lidar'' = None then Some ''boxes_lidar''
      else if map_of kvs ''score'' = None then Some ''score''
      else None)"


section \<open>Example inputs\<close>

text \<open>
  An interpreter for the examples. Its floats are decimal fractions, an integer part and
  the digits after the point, printed as Python prints such a float: \<open>(0, [8, 7])\<close> is
  \<^verbatim>\<open>0.87\<close>. The message texts of \<^verbatim>\<open>KeyError\<close> and \<^verbatim>\<open>ValueError\<close> are those of
  CPython; a \<^verbatim>\<open>TypeError\<close> is shown by its class name, and the two signals carry no
  message.
\<close>

type_synonym decimal = "int \<times> nat list"

definition decimal_format :: "decimal \<Rightarrow> string" where
  "decimal_format f = show_int (fst f) @ ''.'' @ map (\<lambda>d. digit_char (d mod 10)) (snd f)"

definition demo_runtime :: "decimal runtime" where
  "demo_runtime =
     \<lparr>float_format = decimal_format,
      float_nonzero = (\<lambda>f. list_ex (\<lambda>d. d mod 10 \<noteq> 0) (snd f) \<or> fst f \<noteq> 0),
      container_format = (\<lambda>v. ''[...]''),
      exc_str = (\<lambda>e. case e of
                   KeyError k \<Rightarrow> [CHR 0x27] @ k @ [CHR 0x27]
                 | TypeError t \<Rightarrow> ''TypeError''
                 | ValueError (NotEnoughValues n) \<Rightarrow>
                     ''not enough values to unpack (expected 7, got '' @ show_nat n @ '')''
                 | ValueError TooManyValues \<Rightarrow> ''too many values to unpack (expected 7)''
                 | EnvError m \<Rightarrow> m
                 | SystemExit \<Rightarrow> []
                 | KeyboardInterrupt \<Rightarrow> [])\<rparr>"

text \<open>
  A file system for the examples: it has no links and takes relative paths from one
  working directory, so that the canonical path of a path is the path without its empty
  and \<^verbatim>\<open>.\<close> segments, with each \<^verbatim>\<open>..\<close> stepping back over the segment before it.
\<close>

fun split_path :: "string \<Rightarrow> string list" where
  "split_path [] = [[]]"
| "split_path (c # cs) =
     (if c = CHR ''/'' then [] # split_path cs
      else (case split_path cs of [] \<Rightarrow> [[c]] | s # ss \<Rightarrow> (c # s) # ss))"

fun join_path :: "string list \<Rightarrow> string" where
  "join_path [] = []"
| "join_path [s] = s"
| "join_path (s # t # ss) = s @ ''/'' @ join_path (t # ss)"

definition demo_resolve :: "string \<Rightarrow> string" where
  "demo_resolve p =
     (let absolute = (take 1 p = ''/'');
          segments =
            foldl (\<lambda>acc s.
                     if s = [] then acc
                     else if s = ''.'' then acc
                     else if s = ''..'' then
                       (if acc = [] then (if absolute then acc else [s])
                        else if last acc = ''..'' then acc @ [s]
                        else butlast acc)
                     else acc @ [s])
              [] (split_path p)
      in (if absolute then ''/'' else []) @ join_path segments)"

text \<open>Surroundings in which nothing fails and the source file holds \<open>data\<close>.\<close>

definition quiet_env :: "'f pyval \<Rightarrow> 'f env" where
  "quiet_env data =
     \<lparr>load_pickle = (\<lambda>p. Inr data), makedirs_exc = (\<lambda>d. None), resolve = demo_resolve,
      open_exc = (\<lambda>p. None), write_exc = (\<lambda>p c l. None), close_exc = (\<lambda>p c. None)\<rparr>"




definition empty_world :: world where
  "empty_world = \<lparr>stdout = [], dirs = {}, files = Map.empty\<rparr>"

text \<open>A record as the detector writes it: a dictionary with the three fields.\<close>

definition mk_sample :: "'f pyval \<Rightarrow> 'f pyval list list \<Rightarrow> 'f pyval list \<Rightarrow> 'f pyval" where
  "mk_sample fid bxs scs =
     PDict [(''frame_id'', fid), (''boxes_lidar'', PList (map PList bxs)), (''score'', PList scs)]"

text \<open>The scenario of the specification: one frame, one box.\<close>

definition spec_sample :: "decimal pyval" where
  "spec_sample =
     mk_sample (PStr ''000001'')
       [map PFloat [(1, [0]), (2, [0]), (3, [0]), (4, [0]), (5, [0]), (6, [0]), (0, [1])]]
       [PFloat (0, [8, 7])]"

definition spec_frame :: "decimal frame_result" where
  "spec_frame =
     \<lparr>fr_id = PStr ''000001'',
      fr_boxes = [Box (PFloat (1, [0])) (PFloat (2, [0])) (PFloat (3, [0])) (PFloat (4, [0]))
                    (PFloat (5, [0])) (PFloat (6, [0])) (PFloat (0, [1]))],
      fr_scores = [PFloat (0, [8, 7])]\<rparr>"

text \<open>A second frame, with two boxes.\<close>

definition second_sample :: "decimal pyval" where
  "second_sample =
     mk_sample (PStr ''000002'')
       [map PInt [1, 2, 3, 4, 5, 6, 7], map PInt [8, 9, 10, 11, 12, 13, 14]]
       [PInt 0, PInt 1]"

definition second_frame :: "decimal frame_result" where
  "second_frame =
     \<lparr>fr_id = PStr ''000002'',
      fr_boxes = [Box (PInt 1) (PInt 2) (PInt 3) (PInt 4) (PInt 5) (PInt 6) (PInt 7),
                  Box (PInt 8) (PInt 9) (PInt 10) (PInt 11) (PInt 12) (PInt 13) (PInt 14)],
      fr_scores = [PInt 0, PInt 1]\<rparr>"

text \<open>Two frames with the same \<^verbatim>\<open>frame_id\<close>: the first has one box, the second none.\<close>

definition same_id_data :: "decimal pyval" where
  "same_id_data =
     PList [mk_sample (PStr ''a'') [map PInt [1, 2, 3, 4, 5, 6, 7]] [PInt 9],
            mk_sample (PStr ''a'') [] []]"

text \<open>One frame with two boxes and one score.\<close>

definition mismatch_sample :: "decimal pyval" where
  "mismatch_sample =
     mk_sample (PStr ''a'')
       [map PInt [1, 2, 3, 4, 5, 6, 7], map PInt [8, 9, 10, 11, 12, 13, 14]]
       [PInt 9]"

definition mismatch_frame :: "decimal frame_result" where
  "mismatch_frame =
     \<lparr>fr_id = PStr ''a'',
      fr_boxes = [Box (PInt 1) (PInt 2) (PInt 3) (PInt 4) (PInt 5) (PInt 6) (PInt 7),
                  Box (PInt 8) (PInt 9) (PInt 10) (PInt 11) (PInt 12) (PInt 13) (PInt 14)],
      fr_scores = [PInt 9]\<rparr>"



text \<open>Two frames named \<^verbatim>\<open>a\<close> and \<^verbatim>\<open>./a\<close>, whose paths name one file.\<close>

definition alias_data :: "decimal pyval" where
  "alias_data =
     PList [mk_sample (PStr ''a'') [map PInt [1, 2, 3, 4, 5, 6, 7]] [PInt 9],
            mk_sample (PStr ''./a'') [] []]"


text \<open>One frame whose only box has three values and which has no score.\<close>

definition unpaired_short_box_data :: "decimal pyval" where
  "unpaired_short_box_data = PList [mk_sample (PStr ''a'') [map PInt [1, 2, 3]] []]"

text \<open>One frame whose second box has three values, with two scores.\<close>

definition short_box_sample :: "decimal pyval" where
  "short_box_sample =
     mk_sample (PStr ''a'') [map PInt [1, 2, 3, 4, 5, 6, 7], map PInt [1, 2, 3]] [PInt 9, PInt 8]"

text \<open>A record without the \<^verbatim>\<open>score\<close> field.\<close>

definition no_score_fields :: "(string \<times> decimal pyval) list" where
  "no_score_fields = [(''frame_id'', PStr ''000003''), (''boxes_lidar'', PList [])]"

text \<open>The state after the scenario's frame has been written to \<^verbatim>\<open>out/\<close>.\<close>

definition after_first_frame :: world where
  "after_first_frame =
     \<lparr>stdout = [''Loading pickle file: result.pkl'', ''Creating output directory: out/'',
                ''Writing to file: out/000001.txt'', ''Written box 0 for frame 000001'',
                ''Completed writing for frame 000001''],
      dirs = {''out/''},
      files = [''out/000001.txt'' \<mapsto> ''1.0 2.0 3.0 4.0 5.0 6.0 0.1 0.87'' @ newline]\<rparr>"


section \<open>Auxiliary facts\<close>

subsection \<open>What the steps of a run leave unchanged\<close>

lemma files_print [simp]: "files (print s w) = files w"
  by (simp add: print_def)

lemma dirs_print [simp]: "dirs (print s w) = dirs w"
  by (simp add: print_def)

lemma stdout_print [simp]: "stdout (print s w) = stdout w @ [s]"
  by (simp add: print_def)

lemma unpack7_box_val: "unpack7 (box_val b) = Inr (box_items b)"
  by (cases b) (simp add: unpack7_def py_iter_def)

lemma format_line_box: "format_line rt (box_items b) s = box_line rt b s"
  by (cases b) (simp add: format_line_def)

lemma files_for_boxes [simp]:
  "files (fst (for_boxes rt env p fid j pairs buf w)) = files w"
  by (induction pairs arbitrary: j buf w)
     (auto simp: file_write_def split: sum.splits option.splits prod.splits)

lemma dirs_for_boxes [simp]:
  "dirs (fst (for_boxes rt env p fid j pairs buf w)) = dirs w"
  by (induction pairs arbitrary: j buf w)
     (auto simp: file_write_def split: sum.splits option.splits prod.splits)

lemma files_with_block [simp]:
  "files (fst (with_block rt env p fid boxes_lidar scores w)) = files w"
  by (simp add: with_block_def split: sum.splits)

lemma dirs_with_block [simp]:
  "dirs (fst (with_block rt env p fid boxes_lidar scores w)) = dirs w"
  by (simp add: with_block_def split: sum.splits)

subsection \<open>A run on well-formed records in which nothing fails\<close>

text \<open>
  A frame's record is processed without an exception and leaves the frame's text in its
  file; a list of such records leaves \<open>write_all\<close>.
\<close>

lemma for_boxes_ok:
  assumes wr: "\<And>c l. write_exc env p c l = None"
  shows "snd (for_boxes rt env p fid j (zip (map box_val bxs) ss) buf w) =
           (buf @ concat (map2 (box_line rt) bxs ss), None)"
proof (induction bxs arbitrary: ss j buf w)
  case Nil
  show ?case by simp
next
  case (Cons b bxs)
  show ?case
  proof (cases ss)
    case Nil
    then show ?thesis by simp
  next
    case (Cons s ss')
    have "for_boxes rt env p fid j (zip (map box_val (b # bxs)) ss) buf w =
          for_boxes rt env p fid (Suc j) (zip (map box_val bxs) ss') (buf @ box_line rt b s)
            (print (''Written box '' @ show_nat j @ '' for frame '' @ py_format rt fid) w)"
      using Cons by (simp add: unpack7_box_val format_line_box file_write_def wr)
    then show ?thesis using Cons.IH [of "Suc j" ss' "buf @ box_line rt b s"] Cons by simp
  qed
qed

lemma with_block_ok:
  assumes wr: "\<And>c l. write_exc env p c l = None"
  shows "snd (with_block rt env p fid (PList (map box_val bxs)) (PList ss) w) =
           (concat (map2 (box_line rt) bxs ss), None)"
  using for_boxes_ok [OF wr, of rt fid 0 bxs ss "[]" w]
  by (simp add: with_block_def py_iter_def)

lemma with_open_ok:
  assumes op: "open_exc env p = None"
    and wr: "\<And>c l. write_exc env p c l = None"
    and cl: "\<And>c. close_exc env p c = None"
  shows "\<exists>w'. with_open rt env p fid (PList (map box_val bxs)) (PList ss) w = (w', None) \<and>
              files w' = (files w)(resolve env p \<mapsto> concat (map2 (box_line rt) bxs ss)) \<and>
              dirs w' = dirs w"
proof -
  let ?w2 = "w\<lparr>files := (files w)(resolve env p \<mapsto> [])\<rparr>"
  let ?wb = "with_block rt env p fid (PList (map box_val bxs)) (PList ss) ?w2"
  obtain w3 buf r where wb: "?wb = (w3, buf, r)" by (cases ?wb)
  from with_block_ok [OF wr, of rt fid bxs ss ?w2] wb
  have b: "buf = concat (map2 (box_line rt) bxs ss)" and r: "r = None" by simp_all
  have "files (fst ?wb) = files ?w2" by (rule files_with_block)
  then have f3: "files w3 = (files w)(resolve env p \<mapsto> [])" unfolding wb by simp
  have "dirs (fst ?wb) = dirs ?w2" by (rule dirs_with_block)
  then have d3: "dirs w3 = dirs w" unfolding wb by simp
  let ?w4 = "w3\<lparr>files := (files w3)(resolve env p \<mapsto> concat (map2 (box_line rt) bxs ss))\<rparr>"
  have run: "with_open rt env p fid (PList (map box_val bxs)) (PList ss) w = (?w4, None)"
    using op cl wb b r by (simp add: with_open_def open_w_def file_close_def)
  have "files ?w4 = (files w)(resolve env p \<mapsto> concat (map2 (box_line rt) bxs ss))"
    by (simp add: f3)
  moreover have "dirs ?w4 = dirs w" by (simp add: d3)
  ultimately show ?thesis unfolding run by blast
qed

lemma process_sample_ok:
  assumes fr: "holds_frame sample fr"
    and op: "open_exc env (txt_path rt output_dir fr) = None"
    and wr: "\<And>c l. write_exc env (txt_path rt output_dir fr) c l = None"
    and cl: "\<And>c. close_exc env (txt_path rt output_dir fr) c = None"
  shows "\<exists>w'. process_sample rt env output_dir sample w = (w', None) \<and>
              files w' = (files w)(frame_file rt env output_dir fr \<mapsto> frame_text rt fr) \<and>
              dirs w' = dirs w"
proof -
  let ?p = "txt_path rt output_dir fr"
  let ?w1 = "print (''Writing to file: '' @ ?p) w"
  from with_open_ok [OF op wr cl, of rt "fr_id fr" "fr_boxes fr" "fr_scores fr" ?w1]
  obtain w4 where
    wo: "with_open rt env ?p (fr_id fr) (PList (map box_val (fr_boxes fr))) (PList (fr_scores fr)) ?w1 =
           (w4, None)"
    and f4: "files w4 = (files ?w1)(resolve env ?p \<mapsto> concat (map2 (box_line rt) (fr_boxes fr) (fr_scores fr)))"
    and d4: "dirs w4 = dirs ?w1" by blast
  have run: "process_sample rt env output_dir sample w =
             (print (''Completed writing for frame '' @ py_format rt (fr_id fr)) w4, None)"
    using fr wo [unfolded txt_path_def]
    by (simp add: process_sample_def holds_frame_def txt_path_def Let_def)
  have "files w4 = (files w)(frame_file rt env output_dir fr \<mapsto> frame_text rt fr)"
    unfolding f4 frame_file_def frame_text_def frame_lines_def by simp
  then have "files (print (''Completed writing for frame '' @ py_format rt (fr_id fr)) w4) =
             (files w)(frame_file rt env output_dir fr \<mapsto> frame_text rt fr)"
    by (simp only: files_print)
  moreover have "dirs (print (''Completed writing for frame '' @ py_format rt (fr_id fr)) w4) = dirs w"
    by (simp add: d4)
  ultimately show ?thesis unfolding run by blast
qed

lemma for_samples_append:
  "for_samples rt env output_dir (pre @ post) w =
     (case for_samples rt env output_dir pre w of
        (w1, Some e) \<Rightarrow> (w1, Some e)
      | (w1, None) \<Rightarrow> for_samples rt env output_dir post w1)"
  by (induction pre arbitrary: w) (auto split: prod.splits option.splits)

lemma for_samples_ok:
  assumes op: "\<And>p. open_exc env p = None"
    and wr: "\<And>p c l. write_exc env p c l = None"
    and cl: "\<And>p c. close_exc env p c = None"
  shows "list_all2 holds_frame samples frs \<Longrightarrow>
         \<exists>w'. for_samples rt env output_dir samples w = (w', None) \<and>
              files w' = write_all rt env output_dir frs (files w) \<and>
              dirs w' = dirs w"
proof (induction samples frs arbitrary: w rule: list_all2_induct)
  case Nil
  then show ?case by (simp add: write_all_def)
next
  case (Cons s samples fr frs)
  from process_sample_ok [OF Cons.hyps(1) op wr cl, of rt output_dir w]
  obtain w1 where w1: "process_sample rt env output_dir s w = (w1, None)"
    and f1: "files w1 = (files w)(frame_file rt env output_dir fr \<mapsto> frame_text rt fr)"
    and d1: "dirs w1 = dirs w" by blast
  from Cons.IH [of w1] obtain w' where
    r: "for_samples rt env output_dir samples w1 = (w', None)"
    and fw: "files w' = write_all rt env output_dir frs (files w1)"
    and dw: "dirs w' = dirs w1" by blast
  have "files w' = write_all rt env output_dir (fr # frs) (files w)"
    unfolding fw f1 write_all_def by simp
  moreover have "dirs w' = dirs w" unfolding dw d1 ..
  moreover have "for_samples rt env output_dir (s # samples) w = (w', None)"
    by (simp add: w1 r)
  ultimately show ?case by blast
qed

lemma try_body_loop:
  assumes "load_pickle env pickle_file = Inr (PList samples)" and "samples \<noteq> []"
    and "makedirs_exc env output_dir = None"
  shows "try_body rt env pickle_file output_dir w =
         for_samples rt env output_dir samples (loop_start pickle_file output_dir w)"
  using assms by (simp add: try_body_def makedirs_def py_truth_def py_iter_def Let_def loop_start_def)

lemma pickle_to_txt_raised:
  "try_body rt env pickle_file output_dir w = (w1, Some e) \<Longrightarrow> is_Exception e \<Longrightarrow>
   pickle_to_txt rt env pickle_file output_dir w =
     (print (''An error occurred: '' @ exc_str rt e) w1, Inr PNone)"
  by (simp add: pickle_to_txt_def)

lemma pickle_to_txt_returned:
  "try_body rt env pickle_file output_dir w = (w1, None) \<Longrightarrow>
   pickle_to_txt rt env pickle_file output_dir w = (w1, Inr PNone)"
  by (simp add: pickle_to_txt_def)

lemma try_body_ok:
  assumes ld: "load_pickle env pickle_file = Inr (PList samples)"
    and ne: "samples \<noteq> []"
    and mk: "makedirs_exc env output_dir = None"
    and op: "\<And>p. open_exc env p = None"
    and wr: "\<And>p c l. write_exc env p c l = None"
    and cl: "\<And>p c. close_exc env p c = None"
    and frs: "list_all2 holds_frame samples frs"
  shows "\<exists>w'. try_body rt env pickle_file output_dir w = (w', None) \<and>
              pickle_to_txt rt env pickle_file output_dir w = (w', Inr PNone) \<and>
              files w' = write_all rt env output_dir frs (files w) \<and>
              dirs w' = insert output_dir (dirs w)"
proof -
  let ?w3 = "loop_start pickle_file output_dir w"
  have run: "try_body rt env pickle_file output_dir w = for_samples rt env output_dir samples ?w3"
    by (rule try_body_loop [OF ld ne mk])
  from for_samples_ok [OF op wr cl frs, of rt output_dir ?w3] obtain w' where
    r: "for_samples rt env output_dir samples ?w3 = (w', None)"
    and fw: "files w' = write_all rt env output_dir frs (files ?w3)"
    and dw: "dirs w' = dirs ?w3" by blast
  have "files w' = write_all rt env output_dir frs (files w)"
    unfolding fw by (simp add: loop_start_def)
  moreover have "dirs w' = insert output_dir (dirs w)" unfolding dw by (simp add: loop_start_def)
  moreover have "pickle_to_txt rt env pickle_file output_dir w = (w', Inr PNone)"
    by (rule pickle_to_txt_returned) (simp add: run r)
  ultimately show ?thesis using r unfolding run by blast
qed

subsection \<open>The files a list of frames leaves\<close>


lemma write_all_other:
  "p \<notin> frame_file rt env output_dir ` set frs \<Longrightarrow> write_all rt env output_dir frs m p = m p"
  by (induction frs arbitrary: m) (auto simp: write_all_def)

lemma write_all_snoc:
  "write_all rt env output_dir (frs @ [fr]) m =
     (write_all rt env output_dir frs m)(frame_file rt env output_dir fr \<mapsto> frame_text rt fr)"
  by (simp add: write_all_def)

lemma write_all_last:
  "fr \<in> set frs \<Longrightarrow>
   write_all rt env output_dir frs m (frame_file rt env output_dir fr) =
     Some (frame_text rt (last (filter (\<lambda>g. frame_file rt env output_dir g = frame_file rt env output_dir fr) frs)))"
proof (induction frs rule: rev_induct)
  case Nil
  then show ?case by simp
next
  case (snoc g frs)
  show ?case
  proof (cases "frame_file rt env output_dir g = frame_file rt env output_dir fr")
    case True
    then show ?thesis by (simp add: write_all_snoc)
  next
    case False
    with snoc.prems have "fr \<in> set frs" by auto
    with snoc.IH False show ?thesis by (simp add: write_all_snoc)
  qed
qed

lemma write_all_distinct:
  assumes d: "distinct (map (frame_file rt env output_dir) frs)" and i: "i < length frs"
  shows "write_all rt env output_dir frs m (frame_file rt env output_dir (frs ! i)) = Some (frame_text rt (frs ! i))"
proof -
  have "filter (\<lambda>g. frame_file rt env output_dir g = frame_file rt env output_dir (frs ! i)) frs = [frs ! i]"
    using d i
  proof (induction frs arbitrary: i)
    case Nil
    then show ?case by simp
  next
    case (Cons a frs)
    show ?case
    proof (cases i)
      case 0
      have "filter (\<lambda>g. frame_file rt env output_dir g = frame_file rt env output_dir a) frs = []"
        using Cons.prems(1) by (auto simp: filter_empty_conv image_iff)
      with 0 show ?thesis by simp
    next
      case (Suc k)
      with Cons.prems have k: "k < length frs" and dd: "distinct (map (frame_file rt env output_dir) frs)"
        by auto
      have "frame_file rt env output_dir a \<noteq> frame_file rt env output_dir (frs ! k)"
        using Cons.prems(1) k by (auto simp: image_iff)
      with Cons.IH [OF dd k] Suc show ?thesis by simp
    qed
  qed
  with write_all_last [of "frs ! i" frs rt env output_dir m] i show ?thesis by simp
qed

subsection \<open>Counting lines\<close>

lemma digit_char_not_newline: "d < 10 \<Longrightarrow> digit_char d \<noteq> CHR 0x0A"
proof -
  assume "d < 10"
  then have "d \<in> {0, 1, 2, 3, 4, 5, 6, 7, 8, 9}" by auto
  then show ?thesis by (auto simp: digit_char_def)
qed

lemma show_nat_no_newline: "CHR 0x0A \<notin> set (show_nat n)"
proof (induction n rule: show_nat.induct)
  case (1 n)
  show ?case
  proof (cases "n < 10")
    case True
    then show ?thesis using digit_char_not_newline [of n]
      by (subst show_nat.simps) auto
  next
    case False
    have "n mod 10 < 10" by simp
    from digit_char_not_newline [OF this] 1 [OF False] False show ?thesis
      by (subst show_nat.simps) auto
  qed
qed

lemma show_int_no_newline: "CHR 0x0A \<notin> set (show_int i)"
  by (simp add: show_int_def show_nat_no_newline)

lemma count_lines_append [simp]: "count_lines (a @ b) = count_lines a + count_lines b"
  by (simp add: count_lines_def)

lemma count_lines_Cons [simp]:
  "count_lines (c # s) = (if c = CHR 0x0A then 1 else 0) + count_lines s"
  by (simp add: count_lines_def)

lemma count_lines_Nil [simp]: "count_lines [] = 0"
  by (simp add: count_lines_def)

lemma count_lines_0: "CHR 0x0A \<notin> set s \<Longrightarrow> count_lines s = 0"
  by (induction s) auto

lemma count_lines_number:
  assumes "\<And>f. CHR 0x0A \<notin> set (float_format rt f)" and "is_number v"
  shows "count_lines (py_format rt v) = 0"
  using assms by (cases v) (simp_all add: py_format_def count_lines_0 show_int_no_newline)

lemma count_lines_box_line:
  assumes fl: "\<And>f. CHR 0x0A \<notin> set (float_format rt f)"
    and b: "list_all is_number (box_items b)" and s: "is_number s"
  shows "count_lines (box_line rt b s) = 1"
proof (cases b)
  case (Box x y z l wd h r)
  from b Box show ?thesis
    by (simp add: count_lines_number [OF fl] s newline_def)
qed

lemma count_lines_frame_text:
  assumes fl: "\<And>f. CHR 0x0A \<notin> set (float_format rt f)"
    and nf: "numeric_frame fr"
  shows "count_lines (frame_text rt fr) = min (length (fr_boxes fr)) (length (fr_scores fr))"
proof -
  have "list_all (\<lambda>b. list_all is_number (box_items b)) bs \<Longrightarrow> list_all is_number ss \<Longrightarrow>
        count_lines (concat (map2 (box_line rt) bs ss)) = min (length bs) (length ss)" for bs ss
  proof (induction bs arbitrary: ss)
    case Nil
    then show ?case by simp
  next
    case (Cons b bs)
    then show ?case
      by (cases ss) (simp_all add: count_lines_box_line [OF fl])
  qed
  with nf show ?thesis by (simp add: numeric_frame_def frame_text_def frame_lines_def)
qed

lemma decimal_format_no_newline: "CHR 0x0A \<notin> set (decimal_format f)"
proof -
  have "CHR 0x0A \<notin> set (map (\<lambda>d. digit_char (d mod 10)) (snd f))"
  proof
    assume "CHR 0x0A \<in> set (map (\<lambda>d. digit_char (d mod 10)) (snd f))"
    then obtain d where "digit_char (d mod 10) = CHR 0x0A" by auto
    moreover have "d mod 10 < 10" by simp
    ultimately show False using digit_char_not_newline by blast
  qed
  then show ?thesis
    by (simp add: decimal_format_def show_int_no_newline)
qed

subsection \<open>Runs that are cut short\<close>

lemma list_all2_nonempty: "list_all2 P xs ys \<Longrightarrow> ys \<noteq> [] \<Longrightarrow> xs \<noteq> []"
  by (auto simp: list_all2_Nil)

lemma process_sample_missing:
  "missing_field kvs = Some k \<Longrightarrow>
   process_sample rt env output_dir (PDict kvs) w = (w, Some (KeyError k))"
  by (auto simp: missing_field_def process_sample_def py_getitem_def split: if_splits option.splits)

lemma unpack7_short: "length vs \<noteq> 7 \<Longrightarrow>
  unpack7 (PList vs) =
    Inl (ValueError (if length vs < 7 then NotEnoughValues (length vs) else TooManyValues))"
  by (simp add: unpack7_def py_iter_def)

lemma for_boxes_bad:
  assumes wr: "\<And>c l. write_exc env p c l = None"
    and bad: "unpack7 bad = Inl e"
  shows "length good < length ss \<Longrightarrow>
         snd (for_boxes rt env p fid j (zip (map box_val good @ bad # rest) ss) buf w) =
           (buf @ concat (map2 (box_line rt) good ss), Some e)"
proof (induction good arbitrary: ss j buf w)
  case Nil
  then obtain s ss' where ss: "ss = s # ss'" by (cases ss) auto
  show ?case using bad ss by simp
next
  case (Cons b good)
  from Cons.prems obtain s ss' where ss: "ss = s # ss'" and len: "length good < length ss'"
    by (cases ss) auto
  have "for_boxes rt env p fid j (zip (map box_val (b # good) @ bad # rest) ss) buf w =
        for_boxes rt env p fid (Suc j) (zip (map box_val good @ bad # rest) ss') (buf @ box_line rt b s)
          (print (''Written box '' @ show_nat j @ '' for frame '' @ py_format rt fid) w)"
    using ss by (simp add: unpack7_box_val format_line_box file_write_def wr)
  then show ?case using Cons.IH [OF len, of "Suc j" "buf @ box_line rt b s"] ss by simp
qed

subsection \<open>The effect of a run does not depend on the files it finds\<close>











subsection \<open>The exceptions a run can raise\<close>










subsection \<open>Files a record does not name\<close>




subsection \<open>A box that cannot be unpacked\<close>

lemma with_open_bad:
  assumes op: "open_exc env p = None"
    and wr: "\<And>c l. write_exc env p c l = None"
    and cl: "\<And>c. close_exc env p c = None"
    and bad: "unpack7 bad = Inl e"
    and len: "length good < length ss"
  shows "\<exists>w'. with_open rt env p fid (PList (map box_val good @ bad # rest)) (PList ss) w = (w', Some e) \<and>
              files w' = (files w)(resolve env p \<mapsto> concat (map2 (box_line rt) good ss)) \<and>
              dirs w' = dirs w"
proof -
  let ?w2 = "w\<lparr>files := (files w)(resolve env p \<mapsto> [])\<rparr>"
  let ?wb = "with_block rt env p fid (PList (map box_val good @ bad # rest)) (PList ss) ?w2"
  obtain w3 buf r where wb: "?wb = (w3, buf, r)" by (cases ?wb)
  from for_boxes_bad [OF wr bad len, of rt fid 0 rest "[]" ?w2] wb
  have b: "buf = concat (map2 (box_line rt) good ss)" and r: "r = Some e"
    by (simp_all add: with_block_def py_iter_def)
  have "files (fst ?wb) = files ?w2" by (rule files_with_block)
  then have f3: "files w3 = (files w)(resolve env p \<mapsto> [])" unfolding wb by simp
  have "dirs (fst ?wb) = dirs ?w2" by (rule dirs_with_block)
  then have d3: "dirs w3 = dirs w" unfolding wb by simp
  let ?w4 = "w3\<lparr>files := (files w3)(resolve env p \<mapsto> concat (map2 (box_line rt) good ss))\<rparr>"
  have run: "with_open rt env p fid (PList (map box_val good @ bad # rest)) (PList ss) w = (?w4, Some e)"
    using op cl wb b r by (simp add: with_open_def open_w_def file_close_def)
  have "files ?w4 = (files w)(resolve env p \<mapsto> concat (map2 (box_line rt) good ss))"
    by (simp add: f3)
  moreover have "dirs ?w4 = dirs w" by (simp add: d3)
  ultimately show ?thesis unfolding run by blast
qed

subsection \<open>A file that cannot be closed\<close>





section \<open>The claims\<close>

lemmas run_defs = pickle_to_txt_def try_body_def process_sample_def with_open_def with_block_def
  makedirs_def open_w_def file_write_def file_close_def format_line_def unpack7_def py_iter_def
  py_getitem_def py_truth_def py_format_def os_path_join_def print_def Let_def

lemmas demo_defs = demo_runtime_def decimal_format_def show_int_def show_nat.simps digit_char_def
  quiet_env_def empty_world_def mk_sample_def demo_resolve_def




text \<open>
  C2, as the code has it. For a non-empty ResultSet of \<open>N\<close> records holding FrameResults
  with numeric fields and \<open>len(boxes) = len(scores)\<close>, whose output paths name pairwise
  different files, a run in which nothing fails raises nothing, writes \<open>N\<close> different
  files, leaves in the file of frame \<open>i\<close> the text of frame \<open>i\<close>, which has as many
  lines as the frame has boxes, and leaves every other file as it was. A float's text
  has no newline.
\<close>

theorem distinct_paths_files:
  assumes ld: "load_pickle env pickle_file = Inr (PList samples)"
    and ne: "samples \<noteq> []"
    and frs: "list_all2 holds_frame samples frs"
    and eq: "list_all (\<lambda>fr. length (fr_boxes fr) = length (fr_scores fr)) frs"
    and num: "list_all numeric_frame frs"
    and fl: "\<forall>f. CHR 0x0A \<notin> set (float_format rt f)"
    and mk: "makedirs_exc env output_dir = None"
    and op: "\<forall>p. open_exc env p = None"
    and wr: "\<forall>p c l. write_exc env p c l = None"
    and cl: "\<forall>p c. close_exc env p c = None"
    and dist: "distinct (map (frame_file rt env output_dir) frs)"
  shows "\<exists>w'. try_body rt env pickle_file output_dir w = (w', None) \<and>
           pickle_to_txt rt env pickle_file output_dir w = (w', Inr PNone) \<and>
           card (frame_file rt env output_dir ` set frs) = length samples \<and>
           (\<forall>i < length frs.
              files w' (frame_file rt env output_dir (frs ! i)) = Some (frame_text rt (frs ! i)) \<and>
              count_lines (frame_text rt (frs ! i)) = length (fr_boxes (frs ! i))) \<and>
           (\<forall>p. p \<notin> frame_file rt env output_dir ` set frs \<longrightarrow> files w' p = files w p)"
proof -
  from op wr cl have op': "\<And>p. open_exc env p = None"
    and wr': "\<And>p c l. write_exc env p c l = None"
    and cl': "\<And>p c. close_exc env p c = None"
    by blast+
  from fl have fl': "\<And>f. CHR 0x0A \<notin> set (float_format rt f)" by blast
  from try_body_ok [OF ld ne mk op' wr' cl' frs, of rt w] obtain w' where
    t: "try_body rt env pickle_file output_dir w = (w', None)"
    and p: "pickle_to_txt rt env pickle_file output_dir w = (w', Inr PNone)"
    and f: "files w' = write_all rt env output_dir frs (files w)" by blast
  have "length samples = length frs" using frs by (rule list_all2_lengthD)
  moreover have "card (frame_file rt env output_dir ` set frs) = length frs"
    using distinct_card [OF dist] by simp
  ultimately have c: "card (frame_file rt env output_dir ` set frs) = length samples" by simp
  have each: "files w' (frame_file rt env output_dir (frs ! i)) = Some (frame_text rt (frs ! i)) \<and>
      count_lines (frame_text rt (frs ! i)) = length (fr_boxes (frs ! i))" if i: "i < length frs" for i
  proof -
    from i have m: "frs ! i \<in> set frs" by simp
    with eq have e: "length (fr_boxes (frs ! i)) = length (fr_scores (frs ! i))"
      by (simp add: list_all_iff)
    from m num have n: "numeric_frame (frs ! i)" by (simp add: list_all_iff)
    from count_lines_frame_text [OF fl' n] e
    have "count_lines (frame_text rt (frs ! i)) = length (fr_boxes (frs ! i))" by simp
    with write_all_distinct [OF dist i, of "files w"] show ?thesis unfolding f by blast
  qed
  have other: "files w' p = files w p" if "p \<notin> frame_file rt env output_dir ` set frs" for p
    unfolding f using that by (rule write_all_other)
  from t p c each other show ?thesis by blast
qed

text \<open>
  The scenario's frame and a second frame with two boxes.
\<close>

theorem distinct_paths_files_witness:
  "list_all2 holds_frame [spec_sample, second_sample] [spec_frame, second_frame] \<and>
   distinct (map (frame_file demo_runtime (quiet_env (PList [spec_sample, second_sample])) ''out'') [spec_frame, second_frame]) \<and>
   (\<exists>w'. pickle_to_txt demo_runtime (quiet_env (PList [spec_sample, second_sample])) ''result.pkl'' ''out''
            empty_world = (w', Inr PNone) \<and>
         files w' ''out/000001.txt'' = Some (''1.0 2.0 3.0 4.0 5.0 6.0 0.1 0.87'' @ newline) \<and>
         files w' ''out/000002.txt'' =
           Some (''1 2 3 4 5 6 7 0'' @ newline @ ''8 9 10 11 12 13 14 1'' @ newline) \<and>
         count_lines (''1.0 2.0 3.0 4.0 5.0 6.0 0.1 0.87'' @ newline) = 1 \<and>
         count_lines (''1 2 3 4 5 6 7 0'' @ newline @ ''8 9 10 11 12 13 14 1'' @ newline) = 2)"
proof -
  let ?env = "quiet_env (PList [spec_sample, second_sample])"
  let ?frs = "[spec_frame, second_frame]"
  have l: "load_pickle ?env ''result.pkl'' = Inr (PList [spec_sample, second_sample])"
    and m: "makedirs_exc ?env ''out'' = None"
    and o: "\<forall>p. open_exc ?env p = None"
    and w: "\<forall>p c l. write_exc ?env p c l = None"
    and c: "\<forall>p c. close_exc ?env p c = None"
    by (simp_all add: quiet_env_def)
  have n: "[spec_sample, second_sample] \<noteq> []" by simp
  have h: "list_all2 holds_frame [spec_sample, second_sample] ?frs"
    by (simp add: holds_frame_def spec_sample_def spec_frame_def second_sample_def second_frame_def
        mk_sample_def py_getitem_def)
  have e: "list_all (\<lambda>fr. length (fr_boxes fr) = length (fr_scores fr)) ?frs"
    by (simp add: spec_frame_def second_frame_def)
  have u: "list_all numeric_frame ?frs"
    by (simp add: numeric_frame_def spec_frame_def second_frame_def)
  have f: "\<forall>f. CHR 0x0A \<notin> set (float_format demo_runtime f)"
    by (simp add: demo_runtime_def decimal_format_no_newline)
  have p1: "frame_file demo_runtime ?env ''out'' spec_frame = ''out/000001.txt''"
    and p2: "frame_file demo_runtime ?env ''out'' second_frame = ''out/000002.txt''"
    by (simp_all add: frame_file_def txt_path_def os_path_join_def py_format_def spec_frame_def
        second_frame_def quiet_env_def demo_resolve_def Let_def)
  have d: "distinct (map (frame_file demo_runtime ?env ''out'') ?frs)"
    by (simp add: p1 p2)
  have t1: "frame_text demo_runtime spec_frame = ''1.0 2.0 3.0 4.0 5.0 6.0 0.1 0.87'' @ newline"
    by (simp add: frame_text_def frame_lines_def spec_frame_def py_format_def demo_defs)
  have t2: "frame_text demo_runtime second_frame =
      ''1 2 3 4 5 6 7 0'' @ newline @ ''8 9 10 11 12 13 14 1'' @ newline"
    by (simp add: frame_text_def frame_lines_def second_frame_def py_format_def demo_defs)
  from distinct_paths_files [OF l n h e u f m o w c d, of empty_world] obtain w' where
    r: "pickle_to_txt demo_runtime ?env ''result.pkl'' ''out'' empty_world = (w', Inr PNone)"
    and a: "\<forall>i < length ?frs.
              files w' (frame_file demo_runtime ?env ''out'' (?frs ! i)) = Some (frame_text demo_runtime (?frs ! i)) \<and>
              count_lines (frame_text demo_runtime (?frs ! i)) = length (fr_boxes (?frs ! i))"
    by blast
  from a [rule_format, of 0]
  have a0: "files w' (frame_file demo_runtime ?env ''out'' spec_frame) =
        Some (frame_text demo_runtime spec_frame) \<and>
      count_lines (frame_text demo_runtime spec_frame) = length (fr_boxes spec_frame)" by simp
  from a [rule_format, of 1]
  have a1: "files w' (frame_file demo_runtime ?env ''out'' second_frame) =
        Some (frame_text demo_runtime second_frame) \<and>
      count_lines (frame_text demo_runtime second_frame) = length (fr_boxes second_frame)" by simp
  have n1: "length (fr_boxes spec_frame) = 1" and n2: "length (fr_boxes second_frame) = 2"
    by (simp_all add: spec_frame_def second_frame_def)
  from a0 a1
  have "files w' ''out/000001.txt'' = Some (''1.0 2.0 3.0 4.0 5.0 6.0 0.1 0.87'' @ newline) \<and>
        files w' ''out/000002.txt'' =
           Some (''1 2 3 4 5 6 7 0'' @ newline @ ''8 9 10 11 12 13 14 1'' @ newline) \<and>
        count_lines (''1.0 2.0 3.0 4.0 5.0 6.0 0.1 0.87'' @ newline) = 1 \<and>
        count_lines (''1 2 3 4 5 6 7 0'' @ newline @ ''8 9 10 11 12 13 14 1'' @ newline) = 2"
    unfolding p1 p2 t1 t2 n1 n2 by blast
  with r h d show ?thesis by blast
qed

text \<open>
  C2 as stated fails when two frames share a \<^verbatim>\<open>frame_id\<close>: of two frames named \<^verbatim>\<open>a\<close>,
  the first with one box and the second with none, one file remains, and it is empty.
  The claim asks for two files and one line in the first frame's file.
\<close>

theorem same_id_counterexample:
  "pickle_to_txt demo_runtime (quiet_env same_id_data) ''result.pkl'' ''out'' empty_world =
     (\<lparr>stdout = [''Loading pickle file: result.pkl'', ''Creating output directory: out'',
                 ''Writing to file: out/a.txt'', ''Written box 0 for frame a'',
                 ''Completed writing for frame a'',
                 ''Writing to file: out/a.txt'', ''Completed writing for frame a''],
       dirs = {''out''},
       files = [''out/a.txt'' \<mapsto> '''']\<rparr>, Inr PNone) \<and>
   card (dom (files (fst (pickle_to_txt demo_runtime (quiet_env same_id_data) ''result.pkl'' ''out''
                            empty_world)))) = 1 \<and>
   files (fst (pickle_to_txt demo_runtime (quiet_env same_id_data) ''result.pkl'' ''out'' empty_world))
     ''out/a.txt'' = Some '''' \<and>
   count_lines '''' = 0"
  by (simp add: run_defs demo_defs same_id_data_def)

text \<open>
  Different identifiers can name one file as well: the frames \<^verbatim>\<open>a\<close> and \<^verbatim>\<open>./a\<close> are
  written to the paths \<^verbatim>\<open>out/a.txt\<close> and \<^verbatim>\<open>out/./a.txt\<close>, and the second run of the loop
  empties the file the first has written.
\<close>

lemma alias_ids_one_file:
  "pickle_to_txt demo_runtime (quiet_env alias_data) ''result.pkl'' ''out'' empty_world =
     (\<lparr>stdout = [''Loading pickle file: result.pkl'', ''Creating output directory: out'',
                 ''Writing to file: out/a.txt'', ''Written box 0 for frame a'',
                 ''Completed writing for frame a'',
                 ''Writing to file: out/./a.txt'', ''Completed writing for frame ./a''],
       dirs = {''out''},
       files = [''out/a.txt'' \<mapsto> '''']\<rparr>, Inr PNone)"
  by (simp add: run_defs demo_defs alias_data_def)

text \<open>
  C3, as the code has it. When a frame of the ResultSet has boxes and scores of different
  lengths, the records holding FrameResults otherwise, and nothing fails in the
  surroundings, the run raises nothing and prints no error: \<^verbatim>\<open>zip\<close> pairs box \<open>j\<close> with
  score \<open>j\<close> up to the shorter of the two sequences, so the frame has as many lines as
  the shorter sequence has entries, fewer than the longer one, and its file holds the
  text of the last frame written to that file.
\<close>

theorem length_mismatch_truncates:
  assumes ld: "load_pickle env pickle_file = Inr (PList samples)"
    and frs: "list_all2 holds_frame samples frs"
    and mk: "makedirs_exc env output_dir = None"
    and op: "\<forall>p. open_exc env p = None"
    and wr: "\<forall>p c l. write_exc env p c l = None"
    and cl: "\<forall>p c. close_exc env p c = None"
    and mem: "fr \<in> set frs"
    and neq: "length (fr_boxes fr) \<noteq> length (fr_scores fr)"
  shows "\<exists>w'. try_body rt env pickle_file output_dir w = (w', None) \<and>
           pickle_to_txt rt env pickle_file output_dir w = (w', Inr PNone) \<and>
           files w' = write_all rt env output_dir frs (files w) \<and>
           files w' (frame_file rt env output_dir fr) =
             Some (frame_text rt (last (filter (\<lambda>g. frame_file rt env output_dir g = frame_file rt env output_dir fr) frs))) \<and>
           length (frame_lines rt fr) = min (length (fr_boxes fr)) (length (fr_scores fr)) \<and>
           length (frame_lines rt fr) < max (length (fr_boxes fr)) (length (fr_scores fr)) \<and>
           (\<forall>j < length (frame_lines rt fr).
              frame_lines rt fr ! j = box_line rt (fr_boxes fr ! j) (fr_scores fr ! j))"
proof -
  from op wr cl have op': "\<And>p. open_exc env p = None"
    and wr': "\<And>p c l. write_exc env p c l = None"
    and cl': "\<And>p c. close_exc env p c = None"
    by blast+
  from mem have "frs \<noteq> []" by auto
  with frs have ne: "samples \<noteq> []" by (rule list_all2_nonempty)
  from try_body_ok [OF ld ne mk op' wr' cl' frs, of rt w] obtain w' where
    t: "try_body rt env pickle_file output_dir w = (w', None)"
    and p: "pickle_to_txt rt env pickle_file output_dir w = (w', Inr PNone)"
    and f: "files w' = write_all rt env output_dir frs (files w)" by blast
  have l: "files w' (frame_file rt env output_dir fr) =
      Some (frame_text rt (last (filter (\<lambda>g. frame_file rt env output_dir g = frame_file rt env output_dir fr) frs)))"
    unfolding f using mem by (rule write_all_last)
  have n: "length (frame_lines rt fr) = min (length (fr_boxes fr)) (length (fr_scores fr))"
    by (simp add: frame_lines_def)
  have m: "length (frame_lines rt fr) < max (length (fr_boxes fr)) (length (fr_scores fr))"
    using neq unfolding n by auto
  have j: "\<forall>j < length (frame_lines rt fr).
      frame_lines rt fr ! j = box_line rt (fr_boxes fr ! j) (fr_scores fr ! j)"
    by (simp add: frame_lines_def)
  from t p f l n m j show ?thesis by blast
qed

text \<open>
  A frame with two boxes and one score: one line is written.
\<close>

theorem length_mismatch_truncates_witness:
  "list_all2 holds_frame [mismatch_sample] [mismatch_frame] \<and>
   length (fr_boxes mismatch_frame) \<noteq> length (fr_scores mismatch_frame) \<and>
   (\<exists>w'. pickle_to_txt demo_runtime (quiet_env (PList [mismatch_sample])) ''result.pkl'' ''out''
            empty_world = (w', Inr PNone) \<and>
         files w' = [''out/a.txt'' \<mapsto> ''1 2 3 4 5 6 7 9'' @ newline] \<and>
         length (frame_lines demo_runtime mismatch_frame) = 1)"
proof -
  let ?env = "quiet_env (PList [mismatch_sample])"
  have l: "load_pickle ?env ''result.pkl'' = Inr (PList [mismatch_sample])"
    and m: "makedirs_exc ?env ''out'' = None"
    and o: "\<forall>p. open_exc ?env p = None"
    and w: "\<forall>p c l. write_exc ?env p c l = None"
    and c: "\<forall>p c. close_exc ?env p c = None"
    by (simp_all add: quiet_env_def)
  have h: "list_all2 holds_frame [mismatch_sample] [mismatch_frame]"
    by (simp add: holds_frame_def mismatch_sample_def mismatch_frame_def mk_sample_def py_getitem_def)
  have i: "mismatch_frame \<in> set [mismatch_frame]" by simp
  have n: "length (fr_boxes mismatch_frame) \<noteq> length (fr_scores mismatch_frame)"
    by (simp add: mismatch_frame_def)
  have wa: "write_all demo_runtime ?env ''out'' [mismatch_frame] (files empty_world) =
      [''out/a.txt'' \<mapsto> ''1 2 3 4 5 6 7 9'' @ newline]"
    by (simp add: write_all_def frame_file_def txt_path_def frame_text_def frame_lines_def os_path_join_def
        py_format_def mismatch_frame_def demo_defs)
  have mn: "min (length (fr_boxes mismatch_frame)) (length (fr_scores mismatch_frame)) = 1"
    by (simp add: mismatch_frame_def)
  from length_mismatch_truncates [OF l h m o w c i n, of demo_runtime empty_world] obtain w' where
    "pickle_to_txt demo_runtime ?env ''result.pkl'' ''out'' empty_world = (w', Inr PNone)"
    and "files w' = write_all demo_runtime ?env ''out'' [mismatch_frame] (files empty_world)"
    and "length (frame_lines demo_runtime mismatch_frame) =
      min (length (fr_boxes mismatch_frame)) (length (fr_scores mismatch_frame))" by blast
  then have "\<exists>w'. pickle_to_txt demo_runtime ?env ''result.pkl'' ''out'' empty_world = (w', Inr PNone) \<and>
         files w' = [''out/a.txt'' \<mapsto> ''1 2 3 4 5 6 7 9'' @ newline] \<and>
         length (frame_lines demo_runtime mismatch_frame) = 1"
    unfolding wa mn by blast
  with h n show ?thesis by blast
qed

text \<open>
  C3 as stated fails on that frame: the run ends without an exception and without an
  error message, and the file holds the line of the first box only.
\<close>

theorem length_mismatch_counterexample:
  "length (fr_boxes mismatch_frame) \<noteq> length (fr_scores mismatch_frame) \<and>
   holds_frame mismatch_sample mismatch_frame \<and>
   pickle_to_txt demo_runtime (quiet_env (PList [mismatch_sample])) ''result.pkl'' ''out'' empty_world =
     (\<lparr>stdout = [''Loading pickle file: result.pkl'', ''Creating output directory: out'',
                 ''Writing to file: out/a.txt'', ''Written box 0 for frame a'',
                 ''Completed writing for frame a''],
       dirs = {''out''},
       files = [''out/a.txt'' \<mapsto> ''1 2 3 4 5 6 7 9'' @ newline]\<rparr>, Inr PNone) \<and>
   snd (try_body demo_runtime (quiet_env (PList [mismatch_sample])) ''result.pkl'' ''out'' empty_world) =
     None"
  by (simp add: run_defs demo_defs mismatch_sample_def mismatch_frame_def holds_frame_def)







text \<open>
  C6. When the source file holds the empty list and the directory can be made, the run
  raises nothing, prints the three messages of lines 6, 10 and 14 and no error message,
  leaves every file as it was, makes the output directory and returns \<^verbatim>\<open>None\<close>.
\<close>

theorem empty_result_set:
  assumes ld: "load_pickle env pickle_file = Inr (PList [])"
    and mk: "makedirs_exc env output_dir = None"
  shows "try_body rt env pickle_file output_dir w =
           (w\<lparr>stdout := stdout w @ [''Loading pickle file: '' @ pickle_file,
                                    ''Creating output directory: '' @ output_dir,
                                    ''No data found in pickle file.''],
              dirs := insert output_dir (dirs w)\<rparr>, None) \<and>
         pickle_to_txt rt env pickle_file output_dir w =
           (w\<lparr>stdout := stdout w @ [''Loading pickle file: '' @ pickle_file,
                                    ''Creating output directory: '' @ output_dir,
                                    ''No data found in pickle file.''],
              dirs := insert output_dir (dirs w)\<rparr>, Inr PNone) \<and>
         files (fst (pickle_to_txt rt env pickle_file output_dir w)) = files w \<and>
         output_dir \<in> dirs (fst (pickle_to_txt rt env pickle_file output_dir w))"
  using ld mk
  by (simp add: pickle_to_txt_def try_body_def makedirs_def py_truth_def print_def Let_def)

text \<open>
  A run on an empty list, from a state with no file and no directory.
\<close>

theorem empty_result_set_witness:
  "load_pickle (quiet_env (PList [])) ''result.pkl'' = Inr (PList [] :: decimal pyval) \<and>
   makedirs_exc (quiet_env (PList [] :: decimal pyval)) ''out'' = None \<and>
   pickle_to_txt demo_runtime (quiet_env (PList [])) ''result.pkl'' ''out'' empty_world =
     (\<lparr>stdout = [''Loading pickle file: result.pkl'', ''Creating output directory: out'',
                 ''No data found in pickle file.''],
       dirs = {''out''}, files = Map.empty\<rparr>, Inr PNone)"
proof -
  have l: "load_pickle (quiet_env (PList [])) ''result.pkl'' = Inr (PList [] :: decimal pyval)"
    and m: "makedirs_exc (quiet_env (PList [] :: decimal pyval)) ''out'' = None"
    by (simp_all add: quiet_env_def)
  from empty_result_set [OF l m, of demo_runtime empty_world]
  have "pickle_to_txt demo_runtime (quiet_env (PList [])) ''result.pkl'' ''out'' empty_world =
     (\<lparr>stdout = [''Loading pickle file: result.pkl'', ''Creating output directory: out'',
                 ''No data found in pickle file.''],
       dirs = {''out''}, files = Map.empty\<rparr>, Inr PNone)"
    by (simp add: empty_world_def)
  with l m show ?thesis by blast
qed

text \<open>
  C7. When the record after the records \<open>pre\<close> is a dictionary that lacks one of the three
  fields, the directory can be made and the loop over \<open>pre\<close> ends without an exception in
  state \<open>w2\<close>, then the body of the \<^verbatim>\<open>try\<close> raises \<^verbatim>\<open>KeyError\<close> for the first field
  missing, in state \<open>w2\<close>: nothing of the bad record or of the records \<open>post\<close> after it is
  written or printed, and what the records before it wrote is there. The run ends with
  the error message printed and returns \<^verbatim>\<open>None\<close>.
\<close>

theorem missing_field_aborts:
  assumes ld: "load_pickle env pickle_file = Inr (PList (pre @ PDict kvs # post))"
    and mk: "makedirs_exc env output_dir = None"
    and pre: "for_samples rt env output_dir pre (loop_start pickle_file output_dir w) = (w2, None)"
    and miss: "map_of kvs ''frame_id'' = None \<or> map_of kvs ''boxes_lidar'' = None \<or>
               map_of kvs ''score'' = None"
  shows "\<exists>k. missing_field kvs = Some k \<and>
           try_body rt env pickle_file output_dir w = (w2, Some (KeyError k)) \<and>
           pickle_to_txt rt env pickle_file output_dir w =
             (print (''An error occurred: '' @ exc_str rt (KeyError k)) w2, Inr PNone)"
proof -
  from miss have "missing_field kvs \<noteq> None"
    by (auto simp: missing_field_def)
  then obtain k where k: "missing_field kvs = Some k" by blast
  have "try_body rt env pickle_file output_dir w =
        for_samples rt env output_dir (pre @ PDict kvs # post) (loop_start pickle_file output_dir w)"
    by (rule try_body_loop [OF ld _ mk]) simp
  also have "\<dots> = (w2, Some (KeyError k))"
    by (simp add: for_samples_append pre process_sample_missing [OF k])
  finally have t: "try_body rt env pickle_file output_dir w = (w2, Some (KeyError k))" .
  from k t pickle_to_txt_raised [OF t] show ?thesis by simp
qed

text \<open>
  The scenario's frame, then a record without scores, then a third record.
\<close>

theorem missing_field_aborts_witness:
  "for_samples demo_runtime (quiet_env (PList ([spec_sample] @ PDict no_score_fields # [second_sample])))
     ''out/'' [spec_sample] (loop_start ''result.pkl'' ''out/'' empty_world) = (after_first_frame, None) \<and>
   map_of no_score_fields ''score'' = None \<and>
   pickle_to_txt demo_runtime (quiet_env (PList ([spec_sample] @ PDict no_score_fields # [second_sample])))
     ''result.pkl'' ''out/'' empty_world =
     (print (''An error occurred: '' @ [CHR 0x27] @ ''score'' @ [CHR 0x27]) after_first_frame, Inr PNone)"
proof -
  let ?env = "quiet_env (PList ([spec_sample] @ PDict no_score_fields # [second_sample]))"
  have l: "load_pickle ?env ''result.pkl'' =
      Inr (PList ([spec_sample] @ PDict no_score_fields # [second_sample]))"
    and m: "makedirs_exc ?env ''out/'' = None"
    by (simp_all add: quiet_env_def)
  have p: "for_samples demo_runtime ?env ''out/'' [spec_sample]
      (loop_start ''result.pkl'' ''out/'' empty_world) = (after_first_frame, None)"
    by (simp add: run_defs loop_start_def demo_defs spec_sample_def after_first_frame_def)
  have s: "map_of no_score_fields ''score'' = None"
    by (simp add: no_score_fields_def)
  then have d: "map_of no_score_fields ''frame_id'' = None \<or>
      map_of no_score_fields ''boxes_lidar'' = None \<or> map_of no_score_fields ''score'' = None"
    by blast
  have k: "missing_field no_score_fields = Some ''score''"
    by (simp add: missing_field_def no_score_fields_def)
  from missing_field_aborts [OF l m p d] k
  have "pickle_to_txt demo_runtime ?env ''result.pkl'' ''out/'' empty_world =
     (print (''An error occurred: '' @ exc_str demo_runtime (KeyError ''score'')) after_first_frame,
      Inr PNone)" by auto
  then have "pickle_to_txt demo_runtime ?env ''result.pkl'' ''out/'' empty_world =
     (print (''An error occurred: '' @ [CHR 0x27] @ ''score'' @ [CHR 0x27]) after_first_frame, Inr PNone)"
    by (simp add: demo_runtime_def)
  with p s show ?thesis by blast
qed






text \<open>
  C10, as the code has it. When a record after the records \<open>pre\<close> has, after the
  seven-valued boxes \<open>good\<close>, a box \<open>vs\<close> whose length is not 7, and has more scores than
  \<open>good\<close> has boxes, so that \<^verbatim>\<open>zip\<close> reaches the box, then, the loop over \<open>pre\<close> having
  ended without an exception in state \<open>w2\<close> and the record's file being opened, written
  and closed without failure, unpacking the box raises \<^verbatim>\<open>ValueError\<close>: the handler prints
  its message and the run returns \<^verbatim>\<open>None\<close>. The record's file then holds the lines of the
  boxes \<open>good\<close>, one for each, and the other files are as the records before left them.
\<close>

theorem paired_short_box_aborts:
  assumes ld: "load_pickle env pickle_file = Inr (PList (pre @ sample # post))"
    and mk: "makedirs_exc env output_dir = None"
    and pre: "for_samples rt env output_dir pre (loop_start pickle_file output_dir w) = (w2, None)"
    and fid: "py_getitem sample ''frame_id'' = Inr fid"
    and bx: "py_getitem sample ''boxes_lidar'' = Inr (PList (map box_val good @ PList vs # rest))"
    and sc: "py_getitem sample ''score'' = Inr (PList ss)"
    and bad: "length vs \<noteq> 7"
    and paired: "length good < length ss"
    and op: "open_exc env (os_path_join output_dir (py_format rt fid @ ''.txt'')) = None"
    and wr: "\<forall>c l. write_exc env (os_path_join output_dir (py_format rt fid @ ''.txt'')) c l = None"
    and cl: "\<forall>c. close_exc env (os_path_join output_dir (py_format rt fid @ ''.txt'')) c = None"
  shows "\<exists>w3. try_body rt env pickle_file output_dir w =
                (w3, Some (ValueError (if length vs < 7 then NotEnoughValues (length vs)
                                       else TooManyValues))) \<and>
              pickle_to_txt rt env pickle_file output_dir w =
                (print (''An error occurred: '' @
                          exc_str rt (ValueError (if length vs < 7 then NotEnoughValues (length vs)
                                                  else TooManyValues))) w3, Inr PNone) \<and>
              files w3 =
                (files w2)(resolve env (os_path_join output_dir (py_format rt fid @ ''.txt'')) \<mapsto>
                             concat (map2 (box_line rt) good ss)) \<and>
              length (map2 (box_line rt) good ss) = length good \<and>
              dirs w3 = dirs w2"
proof -
  let ?p = "os_path_join output_dir (py_format rt fid @ ''.txt'')"
  let ?e = "ValueError (if length vs < 7 then NotEnoughValues (length vs) else TooManyValues)"
  let ?w1 = "print (''Writing to file: '' @ ?p) w2"
  from wr cl have wr': "\<And>c l. write_exc env ?p c l = None"
    and cl': "\<And>c. close_exc env ?p c = None" by blast+
  from with_open_bad [OF op wr' cl' unpack7_short [OF bad] paired, of rt fid rest ?w1]
  obtain w3 where
    r: "with_open rt env ?p fid (PList (map box_val good @ PList vs # rest)) (PList ss) ?w1 =
          (w3, Some ?e)"
    and f3: "files w3 = (files ?w1)(resolve env ?p \<mapsto> concat (map2 (box_line rt) good ss))"
    and d3: "dirs w3 = dirs ?w1" by blast
  have ps: "process_sample rt env output_dir sample w2 = (w3, Some ?e)"
    using fid bx sc r by (simp add: process_sample_def Let_def)
  have "try_body rt env pickle_file output_dir w =
        for_samples rt env output_dir (pre @ sample # post) (loop_start pickle_file output_dir w)"
    by (rule try_body_loop [OF ld _ mk]) simp
  also have "\<dots> = (w3, Some ?e)"
    by (simp add: for_samples_append pre ps)
  finally have t: "try_body rt env pickle_file output_dir w = (w3, Some ?e)" .
  have ex: "is_Exception ?e" by simp
  have "files w3 = (files w2)(resolve env ?p \<mapsto> concat (map2 (box_line rt) good ss))"
    unfolding f3 by simp
  moreover have "dirs w3 = dirs w2" unfolding d3 by simp
  moreover have "length (map2 (box_line rt) good ss) = length good"
    using paired by simp
  ultimately show ?thesis using t pickle_to_txt_raised [OF t ex] by blast
qed

text \<open>
  A frame whose second box has three values, with two scores.
\<close>

theorem paired_short_box_aborts_witness:
  "py_getitem short_box_sample ''boxes_lidar'' =
     Inr (PList (map box_val [Box (PInt 1) (PInt 2) (PInt 3) (PInt 4) (PInt 5) (PInt 6) (PInt 7)] @
                 PList [PInt 1, PInt 2, PInt 3] # [])) \<and>
   py_getitem short_box_sample ''score'' = Inr (PList [PInt 9, PInt 8]) \<and>
   (\<exists>w3. try_body demo_runtime (quiet_env (PList [short_box_sample])) ''result.pkl'' ''out''
            empty_world = (w3, Some (ValueError (NotEnoughValues 3))) \<and>
         files w3 = [''out/a.txt'' \<mapsto> ''1 2 3 4 5 6 7 9'' @ newline]) \<and>
   pickle_to_txt demo_runtime (quiet_env (PList [short_box_sample])) ''result.pkl'' ''out'' empty_world =
     (\<lparr>stdout = [''Loading pickle file: result.pkl'', ''Creating output directory: out'',
                 ''Writing to file: out/a.txt'', ''Written box 0 for frame a'',
                 ''An error occurred: not enough values to unpack (expected 7, got 3)''],
       dirs = {''out''},
       files = [''out/a.txt'' \<mapsto> ''1 2 3 4 5 6 7 9'' @ newline]\<rparr>, Inr PNone)"
proof -
  let ?env = "quiet_env (PList [short_box_sample])"
  let ?good = "[Box (PInt 1) (PInt 2) (PInt 3) (PInt 4) (PInt 5) (PInt 6) (PInt 7 :: decimal pyval)]"
  let ?p = "os_path_join ''out'' (py_format demo_runtime (PStr ''a'') @ ''.txt'')"
  have l: "load_pickle ?env ''result.pkl'' = Inr (PList ([] @ short_box_sample # []))"
    and m: "makedirs_exc ?env ''out'' = None"
    by (simp_all add: quiet_env_def)
  have p: "for_samples demo_runtime ?env ''out'' [] (loop_start ''result.pkl'' ''out'' empty_world) =
      (loop_start ''result.pkl'' ''out'' empty_world, None)" by simp
  have f: "py_getitem short_box_sample ''frame_id'' = Inr (PStr ''a'')"
    and b: "py_getitem short_box_sample ''boxes_lidar'' =
      Inr (PList (map box_val ?good @ PList [PInt 1, PInt 2, PInt 3] # []))"
    and s: "py_getitem short_box_sample ''score'' = Inr (PList [PInt 9, PInt 8])"
    by (simp_all add: short_box_sample_def mk_sample_def py_getitem_def)
  have n: "length [PInt 1, PInt 2, PInt 3 :: decimal pyval] \<noteq> 7"
    and q: "length ?good < length [PInt 9, PInt 8 :: decimal pyval]" by simp_all
  have o: "open_exc ?env ?p = None"
    and w: "\<forall>c l. write_exc ?env ?p c l = None"
    and k: "\<forall>c. close_exc ?env ?p c = None"
    by (simp_all add: quiet_env_def)
  have c: "(files (loop_start ''result.pkl'' ''out'' empty_world))
             (resolve ?env ?p \<mapsto> concat (map2 (box_line demo_runtime) ?good [PInt 9, PInt 8])) =
           [''out/a.txt'' \<mapsto> ''1 2 3 4 5 6 7 9'' @ newline]"
    by (simp add: loop_start_def os_path_join_def py_format_def demo_defs)
  from paired_short_box_aborts [OF l m p f b s n q o w k] obtain w3 where
    "try_body demo_runtime ?env ''result.pkl'' ''out'' empty_world =
       (w3, Some (ValueError (if length [PInt 1, PInt 2, PInt 3 :: decimal pyval] < 7
                              then NotEnoughValues (length [PInt 1, PInt 2, PInt 3 :: decimal pyval])
                              else TooManyValues)))"
    and "files w3 = (files (loop_start ''result.pkl'' ''out'' empty_world))
             (resolve ?env ?p \<mapsto> concat (map2 (box_line demo_runtime) ?good [PInt 9, PInt 8]))"
    by blast
  then have t: "\<exists>w3. try_body demo_runtime ?env ''result.pkl'' ''out'' empty_world =
        (w3, Some (ValueError (NotEnoughValues 3))) \<and>
      files w3 = [''out/a.txt'' \<mapsto> ''1 2 3 4 5 6 7 9'' @ newline]"
    unfolding c by simp
  have r: "pickle_to_txt demo_runtime ?env ''result.pkl'' ''out'' empty_world =
     (\<lparr>stdout = [''Loading pickle file: result.pkl'', ''Creating output directory: out'',
                 ''Writing to file: out/a.txt'', ''Written box 0 for frame a'',
                 ''An error occurred: not enough values to unpack (expected 7, got 3)''],
       dirs = {''out''},
       files = [''out/a.txt'' \<mapsto> ''1 2 3 4 5 6 7 9'' @ newline]\<rparr>, Inr PNone)"
    by (simp add: run_defs demo_defs short_box_sample_def)
  from b s t r show ?thesis by blast
qed

text \<open>
  C10 as stated fails when the short box has no score to be paired with: \<^verbatim>\<open>zip\<close> stops
  before it, nothing is unpacked, and the run ends without an exception.
\<close>

theorem unpaired_short_box_counterexample:
  "pickle_to_txt demo_runtime (quiet_env unpaired_short_box_data) ''result.pkl'' ''out'' empty_world =
     (\<lparr>stdout = [''Loading pickle file: result.pkl'', ''Creating output directory: out'',
                 ''Writing to file: out/a.txt'', ''Completed writing for frame a''],
       dirs = {''out''},
       files = [''out/a.txt'' \<mapsto> '''']\<rparr>, Inr PNone) \<and>
   snd (try_body demo_runtime (quiet_env unpaired_short_box_data) ''result.pkl'' ''out'' empty_world) =
     None"
  by (simp add: run_defs demo_defs unpaired_short_box_data_def
      )

end
